theory Spec2Isabelle
  imports Main "HOL-Library.Sublist"
begin

section \<open>Python strings\<close>

text \<open>
  A Python \<open>str\<close> is a sequence of code points. The model takes the code points
  U+0000 to U+00FF, one \<^typ>\<open>char\<close> each, so every \<^typ>\<open>string\<close> of the model is a
  Python string, and the character classes below are the ones CPython's Unicode tables
  give on that range. Strings with code points from U+0100 on are outside the model.
\<close>

definition code :: "char \<Rightarrow> nat" where
  "code c = of_char c"

text \<open>\<open>str.isspace\<close>, which is also what \<open>str.strip()\<close> removes and what \<open>\s\<close> matches.\<close>

definition isspace :: "char \<Rightarrow> bool" where
  "isspace c = (let n = code c in (9 \<le> n \<and> n \<le> 13) \<or> (28 \<le> n \<and> n \<le> 32) \<or> n = 133 \<or> n = 160)"

text \<open>\<open>str.isdigit\<close>: the decimal digits and the superscript digits U+00B2, U+00B3, U+00B9.\<close>

definition isdigit :: "char \<Rightarrow> bool" where
  "isdigit c = (let n = code c in (48 \<le> n \<and> n \<le> 57) \<or> n = 178 \<or> n = 179 \<or> n = 185)"

text \<open>
  The class \<open>\w\<close> of a \<open>str\<close> pattern: alphanumeric code points and the underscore.
\<close>

definition is_word :: "char \<Rightarrow> bool" where
  "is_word c = (let n = code c in
     (48 \<le> n \<and> n \<le> 57) \<or> (65 \<le> n \<and> n \<le> 90) \<or> n = 95 \<or> (97 \<le> n \<and> n \<le> 122) \<or>
     n = 170 \<or> n = 178 \<or> n = 179 \<or> n = 181 \<or> n = 185 \<or> n = 186 \<or>
     (188 \<le> n \<and> n \<le> 190) \<or> (192 \<le> n \<and> n \<le> 214) \<or> (216 \<le> n \<and> n \<le> 246) \<or>
     (248 \<le> n \<and> n \<le> 255))"

text \<open>\<open>str.lower\<close> on one code point: A to Z, and U+00C0 to U+00DE without U+00D7.\<close>

definition lower_char :: "char \<Rightarrow> char" where
  "lower_char c = (let n = code c in
     if (65 \<le> n \<and> n \<le> 90) \<or> (192 \<le> n \<and> n \<le> 214) \<or> (216 \<le> n \<and> n \<le> 222)
     then char_of (n + 32) else c)"

definition lower :: "string \<Rightarrow> string" where
  "lower s = map lower_char s"

text \<open>\<open>s.strip()\<close> and \<open>s.strip('_')\<close>: drop a class of characters at both ends.\<close>

definition strip_where :: "(char \<Rightarrow> bool) \<Rightarrow> string \<Rightarrow> string" where
  "strip_where p s = rev (dropWhile p (rev (dropWhile p s)))"

definition strip :: "string \<Rightarrow> string" where
  "strip s = strip_where isspace s"

definition strip_underscores :: "string \<Rightarrow> string" where
  "strip_underscores s = strip_where (\<lambda>c. c = CHR ''_'') s"

text \<open>\<open>re.sub(r'[^\w]', '_', s)\<close>: every character outside \<open>\w\<close> becomes an underscore.\<close>

definition sub_nonword :: "string \<Rightarrow> string" where
  "sub_nonword s = map (\<lambda>c. if is_word c then c else CHR ''_'') s"

text \<open>\<open>re.sub(r'_+', '_', s)\<close>: every maximal run of underscores becomes one underscore.\<close>

fun sub_underscores :: "string \<Rightarrow> string" where
  "sub_underscores (a # b # cs) =
     (if a = CHR ''_'' \<and> b = CHR ''_'' then sub_underscores (b # cs)
      else a # sub_underscores (b # cs))"
| "sub_underscores cs = cs"

section \<open>The identifier sanitizer\<close>

text \<open>
  \<^verbatim>\<open>
  def sanitize_name(name):
      name = re.sub(r'[^\w]', '_', str(name).strip())
      name = re.sub(r'_+', '_', name).strip('_')
      if not name or name[0].isdigit():
          name = f'col_{name}'
      return name.lower()
  \<close>
  The argument of the model is the text \<open>str(name)\<close>.
\<close>

definition add_prefix :: "string \<Rightarrow> string" where
  "add_prefix name = (case name of
       [] \<Rightarrow> ''col_'' @ name
     | c # _ \<Rightarrow> if isdigit c then ''col_'' @ name else name)"

definition sanitize_name :: "string \<Rightarrow> string" where
  "sanitize_name name =
     lower (add_prefix (strip_underscores (sub_underscores (sub_nonword (strip name)))))"






section \<open>Cell values\<close>

text \<open>
  A cell is the Python object the code gets from a column or from \<open>row[col]\<close>. The code
  asks three things of it: \<open>pd.isna(val)\<close>, \<open>isinstance(val, (int, float))\<close> and its text
  (\<open>str(val)\<close>, or the column's \<open>astype(str)\<close>). The constructors are the kinds of
  object these three tell apart:
  \<^item> the four values for which \<open>pd.isna\<close> holds: \<open>None\<close>, the float NaN, \<open>pd.NA\<close> and
    \<open>pd.NaT\<close> (the missing value of a datetime column);
  \<^item> Python \<open>int\<close> and \<open>bool\<close> (a subclass of \<open>int\<close>), which the rows of a frame with
    columns of different dtypes hold;
  \<^item> a float other than NaN (\<open>numpy.float64\<close> is a subclass of \<open>float\<close>), given by the
    text \<open>str\<close> prints for it;
  \<^item> \<open>numpy.int64\<close> and \<open>numpy.bool_\<close>, which \<open>row[col]\<close> gives when \<open>df.iterrows()\<close>
    yields a row of integer or boolean dtype, that is, when every column of the frame
    has that dtype; neither is a subclass of \<open>int\<close> or \<open>float\<close>;
  \<^item> \<open>str\<close>;
  \<^item> any other object, such as a \<open>Timestamp\<close>, given by the text of \<open>str(val)\<close> and by
    the text \<open>astype(str)\<close> gives for it in its column (pandas formats a datetime
    column itself).
  The behaviour of pandas is that of the versions 1 and 2, where \<open>astype(str)\<close> gives
  an object column and turns missing values into their text.
\<close>

datatype cell =
    PyNone
  | NaN
  | NA
  | NaT
  | PyInt int
  | PyBool bool
  | PyFloat string
  | NpInt int
  | NpBool bool
  | PyStr string
  | Other string string

fun pd_isna :: "cell \<Rightarrow> bool" where
  "pd_isna PyNone = True"
| "pd_isna NaN = True"
| "pd_isna NA = True"
| "pd_isna NaT = True"
| "pd_isna _ = False"

text \<open>\<open>isinstance(val, (int, float))\<close>.\<close>

fun isinstance_int_float :: "cell \<Rightarrow> bool" where
  "isinstance_int_float (PyInt _) = True"
| "isinstance_int_float (PyBool _) = True"
| "isinstance_int_float (PyFloat _) = True"
| "isinstance_int_float NaN = True"
| "isinstance_int_float _ = False"

text \<open>The decimal text of an integer.\<close>

fun digits :: "nat \<Rightarrow> string" where
  "digits n = (if n < 10 then [char_of (48 + n)] else digits (n div 10) @ [char_of (48 + n mod 10)])"

declare digits.simps [simp del]

definition str_int :: "int \<Rightarrow> string" where
  "str_int i = (if i < 0 then CHR ''-'' # digits (nat (- i)) else digits (nat i))"

definition str_bool :: "bool \<Rightarrow> string" where
  "str_bool b = (if b then ''True'' else ''False'')"

text \<open>\<open>str(val)\<close>.\<close>

fun py_str :: "cell \<Rightarrow> string" where
  "py_str PyNone = ''None''"
| "py_str NaN = ''nan''"
| "py_str NA = ''<NA>''"
| "py_str NaT = ''NaT''"
| "py_str (PyInt i) = str_int i"
| "py_str (PyBool b) = str_bool b"
| "py_str (PyFloat s) = s"
| "py_str (NpInt i) = str_int i"
| "py_str (NpBool b) = str_bool b"
| "py_str (PyStr s) = s"
| "py_str (Other s a) = s"

text \<open>The text of a cell in \<open>column.astype(str)\<close>.\<close>

fun astype_str :: "cell \<Rightarrow> string" where
  "astype_str (Other s a) = a"
| "astype_str v = py_str v"

section \<open>Tables\<close>

text \<open>
  A \<open>DataFrame\<close>: the column labels in order, the text \<open>str(df[col].dtype)\<close> of each
  column, and the rows in order, each with one cell for each column. \<open>read_excel\<close> gives
  distinct labels.
\<close>

record dataframe =
  columns :: "string list"
  dtypes :: "string list"
  rows :: "cell list list"

definition well_formed :: "dataframe \<Rightarrow> bool" where
  "well_formed df = (distinct (columns df) \<and> length (dtypes df) = length (columns df) \<and>
     list_all (\<lambda>r. length r = length (columns df)) (rows df))"

text \<open>The place of a label among the columns; it is only asked for a label that is there.\<close>

fun position :: "string \<Rightarrow> string list \<Rightarrow> nat" where
  "position c [] = 0"
| "position c (x # xs) = (if x = c then 0 else Suc (position c xs))"

section \<open>The cleaner\<close>

text \<open>
  \<^verbatim>\<open>
  def clean_data(df, selected_cols):
      df_clean = df.copy()
      if selected_cols:
          for col in selected_cols:
              if col in df_clean.columns:
                  df_clean[col] = df_clean[col].astype(str).str.strip().replace({
                      r'(?i)^NA$': pd.NA,
                      r'(?i)^null$': pd.NA,
                      r'(?i)^not available$': pd.NA,
                      r'(?i)^nan$': pd.NA,
                      r'(?i)^None$': pd.NA,
                      r'(?i)^ns$': pd.NA,
                      r'^\s*$': pd.NA
                  }, regex=True)
          df_clean = df_clean.dropna(subset=[col for col in selected_cols if col in df_clean.columns])
      return df_clean
  \<close>
\<close>

text \<open>
  The two shapes of pattern in the dictionary: \<open>(?i)^token$\<close> and \<open>^\s*$\<close>. Without the
  flag \<open>MULTILINE\<close>, \<open>$\<close> matches at the end of the text and before a line feed that
  ends it.
\<close>

datatype pattern = Token string | Blank

fun re_search :: "pattern \<Rightarrow> string \<Rightarrow> bool" where
  "re_search (Token t) s = (lower s = lower t \<or> lower s = lower t @ [CHR 0x0A])"
| "re_search Blank s = list_all isspace s"

definition null_patterns :: "pattern list" where
  "null_patterns = [Token ''NA'', Token ''null'', Token ''not available'', Token ''nan'',
     Token ''None'', Token ''ns'', Blank]"

text \<open>
  \<open>replace(..., regex=True)\<close> takes the patterns in turn; a text that a pattern matches
  becomes \<open>pd.NA\<close>, and a cell that is not a text is left alone.
\<close>

definition replace_one :: "cell \<Rightarrow> pattern \<Rightarrow> cell" where
  "replace_one v p = (case v of PyStr s \<Rightarrow> if re_search p s then NA else v | _ \<Rightarrow> v)"

definition clean_cell :: "cell \<Rightarrow> cell" where
  "clean_cell v = foldl replace_one (PyStr (strip (astype_str v))) null_patterns"

text \<open>The assignment \<open>df_clean[col] = ...\<close> for a column that is there.\<close>

definition clean_column :: "string \<Rightarrow> dataframe \<Rightarrow> dataframe" where
  "clean_column col df = (let i = position col (columns df) in
     df\<lparr>dtypes := (dtypes df)[i := ''object''],
        rows := map (\<lambda>r. r[i := clean_cell (r ! i)]) (rows df)\<rparr>)"

definition clean_step :: "string \<Rightarrow> dataframe \<Rightarrow> dataframe" where
  "clean_step col df = (if col \<in> set (columns df) then clean_column col df else df)"

text \<open>\<open>df.dropna(subset=...)\<close>: a row stays when none of the columns named holds a missing value.\<close>

definition dropna :: "string list \<Rightarrow> dataframe \<Rightarrow> dataframe" where
  "dropna names df =
     df\<lparr>rows := filter (\<lambda>r. list_all (\<lambda>col. \<not> pd_isna (r ! position col (columns df))) names)
                     (rows df)\<rparr>"

definition clean_data :: "dataframe \<Rightarrow> string list \<Rightarrow> dataframe" where
  "clean_data df selected_cols =
     (if selected_cols \<noteq> [] then
        (let df_clean = fold clean_step selected_cols df
         in dropna (filter (\<lambda>col. col \<in> set (columns df_clean)) selected_cols) df_clean)
      else df)"

text \<open>
  The specification's null-like texts: a text that, stripped, is empty or is one of the
  six tokens whatever the case of its letters.
\<close>

definition null_tokens :: "string list" where
  "null_tokens = [''na'', ''null'', ''not available'', ''nan'', ''none'', ''ns'']"

definition null_like :: "string \<Rightarrow> bool" where
  "null_like t = (strip t = [] \<or> lower (strip t) \<in> set null_tokens)"

text \<open>What the loop does to one row, and the rows that \<open>dropna\<close> then keeps.\<close>

definition clean_row :: "string list \<Rightarrow> string list \<Rightarrow> cell list \<Rightarrow> cell list" where
  "clean_row cols selected_cols r =
     fold (\<lambda>col r. if col \<in> set cols then r[position col cols := clean_cell (r ! position col cols)] else r)
       selected_cols r"

definition kept :: "dataframe \<Rightarrow> string list \<Rightarrow> cell list \<Rightarrow> bool" where
  "kept df selected_cols r =
     list_all (\<lambda>col. col \<in> set (columns df) \<longrightarrow> \<not> null_like (astype_str (r ! position col (columns df))))
       selected_cols"

section \<open>The type mapper\<close>

text \<open>
  \<^verbatim>\<open>
  def map_dtype_to_sql(dtype, dialect='mysql'):
      dtype_str = str(dtype)
      if 'int' in dtype_str:
          return 'INT' if dialect != 'postgresql' else 'INTEGER'
      elif 'float' in dtype_str:
          return 'DOUBLE' if dialect == 'mysql' else 'REAL' if dialect == 'sqlite' else 'DOUBLE PRECISION'
      elif 'bool' in dtype_str:
          return 'BOOLEAN'
      elif 'datetime' in dtype_str:
          return 'DATETIME' if dialect != 'postgresql' else 'TIMESTAMP'
      else:
          return 'VARCHAR(255)' if dialect == 'mysql' else 'TEXT'
  \<close>
  The first argument of the model is the text \<open>str(dtype)\<close>.
\<close>

fun startswith :: "string \<Rightarrow> string \<Rightarrow> bool" where
  "startswith [] s = True"
| "startswith (p # ps) [] = False"
| "startswith (p # ps) (c # cs) = (p = c \<and> startswith ps cs)"

text \<open>\<open>p in s\<close> for two texts.\<close>

fun contains :: "string \<Rightarrow> string \<Rightarrow> bool" where
  "contains p [] = (p = [])"
| "contains p (c # cs) = (startswith p (c # cs) \<or> contains p cs)"

definition map_dtype_to_sql :: "string \<Rightarrow> string \<Rightarrow> string" where
  "map_dtype_to_sql dtype_str dialect =
     (if contains ''int'' dtype_str then
        (if dialect \<noteq> ''postgresql'' then ''INT'' else ''INTEGER'')
      else if contains ''float'' dtype_str then
        (if dialect = ''mysql'' then ''DOUBLE''
         else if dialect = ''sqlite'' then ''REAL'' else ''DOUBLE PRECISION'')
      else if contains ''bool'' dtype_str then ''BOOLEAN''
      else if contains ''datetime'' dtype_str then
        (if dialect \<noteq> ''postgresql'' then ''DATETIME'' else ''TIMESTAMP'')
      else (if dialect = ''mysql'' then ''VARCHAR(255)'' else ''TEXT''))"

text \<open>
  The lookup table of the specification, over its five semantic types and its three
  dialects: A is \<open>mysql\<close>, B is \<open>postgresql\<close>, C is \<open>sqlite\<close>.
\<close>

datatype semantic_type = Integer | FloatingPoint | Boolean | Timestamp | TextOther

datatype dialect = DialectA | DialectB | DialectC

fun dialect_name :: "dialect \<Rightarrow> string" where
  "dialect_name DialectA = ''mysql''"
| "dialect_name DialectB = ''postgresql''"
| "dialect_name DialectC = ''sqlite''"

fun type_table :: "semantic_type \<Rightarrow> dialect \<Rightarrow> string" where
  "type_table Integer DialectA = ''INT''"
| "type_table Integer DialectB = ''INTEGER''"
| "type_table Integer DialectC = ''INT''"
| "type_table FloatingPoint DialectA = ''DOUBLE''"
| "type_table FloatingPoint DialectB = ''DOUBLE PRECISION''"
| "type_table FloatingPoint DialectC = ''REAL''"
| "type_table Boolean _ = ''BOOLEAN''"
| "type_table Timestamp DialectA = ''DATETIME''"
| "type_table Timestamp DialectB = ''TIMESTAMP''"
| "type_table Timestamp DialectC = ''DATETIME''"
| "type_table TextOther DialectA = ''VARCHAR(255)''"
| "type_table TextOther DialectB = ''TEXT''"
| "type_table TextOther DialectC = ''TEXT''"

text \<open>
  The semantic type of a column, read off the name of its dtype as pandas prints it:
  \<open>int64\<close>, \<open>float64\<close>, \<open>bool\<close>, \<open>datetime64[ns]\<close>, and \<open>object\<close> or any other name.
\<close>

definition semantic_type_of :: "string \<Rightarrow> semantic_type" where
  "semantic_type_of dtype_str =
     (if contains ''int'' dtype_str then Integer
      else if contains ''float'' dtype_str then FloatingPoint
      else if contains ''bool'' dtype_str then Boolean
      else if contains ''datetime'' dtype_str then Timestamp
      else TextOther)"

section \<open>The SQL generator\<close>

text \<open>
  \<^verbatim>\<open>
  def generate_sql(df, table_name, dialect='mysql'):
      table_name = sanitize_name(table_name)
      col_map = {col: sanitize_name(col) for col in df.columns}
      col_defs = []
      for col in df.columns:
          sql_type = map_dtype_to_sql(df[col].dtype, dialect)
          col_defs.append(f"    {col_map[col]} {sql_type}")
      create_stmt = f"CREATE TABLE IF NOT EXISTS {table_name} (\n"
      create_stmt += ",\n".join(col_defs)
      create_stmt += "\n);\n"
      insert_stmts = []
      col_names = ", ".join(col_map[col] for col in df.columns)
      for _, row in df.iterrows():
          values = []
          for col in df.columns:
              val = row[col]
              if pd.isna(val):
                  values.append("NULL")
              elif isinstance(val, (int, float)):
                  values.append(str(val))
              else:
                  escaped = str(val).replace("'", "''")
                  values.append(f"'{escaped}'")
          vals_str = ", ".join(values)
          insert_stmts.append(f"INSERT INTO {table_name} ({col_names}) VALUES ({vals_str});")
      return create_stmt, "\n".join(insert_stmts)
  \<close>
\<close>

fun join :: "string \<Rightarrow> string list \<Rightarrow> string" where
  "join sep [] = []"
| "join sep [x] = x"
| "join sep (x # y # ys) = x @ sep @ join sep (y # ys)"

definition quote :: char where
  "quote = CHR 0x27"

definition newline :: char where
  "newline = CHR 0x0A"

text \<open>\<open>s.replace("'", "''")\<close>.\<close>

definition escape :: "string \<Rightarrow> string" where
  "escape s = concat (map (\<lambda>c. if c = quote then [quote, quote] else [c]) s)"

text \<open>The body of the inner loop: the text appended to \<open>values\<close> for one cell.\<close>

definition sql_value :: "cell \<Rightarrow> string" where
  "sql_value val =
     (if pd_isna val then ''NULL''
      else if isinstance_int_float val then py_str val
      else [quote] @ escape (py_str val) @ [quote])"

definition col_defs :: "dataframe \<Rightarrow> string \<Rightarrow> string list" where
  "col_defs df dialect =
     map (\<lambda>(col, dtype). ''    '' @ sanitize_name col @ '' '' @ map_dtype_to_sql dtype dialect)
       (zip (columns df) (dtypes df))"

definition create_stmt :: "dataframe \<Rightarrow> string \<Rightarrow> string \<Rightarrow> string" where
  "create_stmt df table_name dialect =
     ''CREATE TABLE IF NOT EXISTS '' @ table_name @ '' ('' @ [newline] @
     join ('','' @ [newline]) (col_defs df dialect) @ [newline] @ '');'' @ [newline]"

definition row_values :: "dataframe \<Rightarrow> cell list \<Rightarrow> string list" where
  "row_values df row = map (\<lambda>col. sql_value (row ! position col (columns df))) (columns df)"

definition insert_stmt :: "dataframe \<Rightarrow> string \<Rightarrow> cell list \<Rightarrow> string" where
  "insert_stmt df table_name row =
     ''INSERT INTO '' @ table_name @ '' ('' @ join '', '' (map sanitize_name (columns df)) @
     '') VALUES ('' @ join '', '' (row_values df row) @ '');''"

definition insert_stmts :: "dataframe \<Rightarrow> string \<Rightarrow> string list" where
  "insert_stmts df table_name = map (insert_stmt df table_name) (rows df)"

definition generate_sql :: "dataframe \<Rightarrow> string \<Rightarrow> string \<Rightarrow> string \<times> string" where
  "generate_sql df table_name dialect =
     (let table_name = sanitize_name table_name
      in (create_stmt df table_name dialect, join [newline] (insert_stmts df table_name)))"

text \<open>
  Reading a quoted value back: each doubled single quote becomes one single quote,
  from left to right.
\<close>

fun unescape :: "string \<Rightarrow> string" where
  "unescape (a # b # cs) =
     (if a = quote \<and> b = quote then quote # unescape cs else a # unescape (b # cs))"
| "unescape cs = cs"

section \<open>Example tables\<close>

text \<open>
  The table of the specification's scenario: columns \<open>Name\<close> and \<open>Age\<close>, rows
  \<open>("Alice", "NA")\<close> and \<open>("Bob", "30")\<close>.
\<close>

definition people :: dataframe where
  "people = \<lparr>columns = [''Name'', ''Age''], dtypes = [''object'', ''object''],
     rows = [[PyStr ''Alice'', PyStr ''NA''], [PyStr ''Bob'', PyStr ''30'']]\<rparr>"

text \<open>
  A table with one datetime column that holds, in turn, the missing value \<open>NaT\<close> and a
  date; and a table with one column of objects that holds \<open>None\<close>, NaN and a text.
\<close>

definition dates :: dataframe where
  "dates = \<lparr>columns = [''when''], dtypes = [''datetime64[ns]''],
     rows = [[NaT], [Other ''2024-01-02 00:00:00'' ''2024-01-02'']]\<rparr>"

definition remarks :: dataframe where
  "remarks = \<lparr>columns = [''note''], dtypes = [''object''],
     rows = [[PyNone], [NaN], [PyStr ''ok'']]\<rparr>"

text \<open>
  A table with one integer column and a table with one boolean column. Every column of
  each has the same dtype, so \<open>df.iterrows()\<close> yields rows of that dtype and \<open>row[col]\<close>
  is a \<open>numpy.int64\<close> or a \<open>numpy.bool_\<close>. In the third table a text column stands
  beside the two, the rows are rows of objects, and \<open>row[col]\<close> is a Python \<open>int\<close> or
  \<open>bool\<close>.
\<close>

definition counts :: dataframe where
  "counts = \<lparr>columns = [''n''], dtypes = [''int64''], rows = [[NpInt 5]]\<rparr>"

definition flags :: dataframe where
  "flags = \<lparr>columns = [''done''], dtypes = [''bool''], rows = [[NpBool True], [NpBool False]]\<rparr>"

definition mixed :: dataframe where
  "mixed = \<lparr>columns = [''n'', ''done'', ''who''], dtypes = [''int64'', ''bool'', ''object''],
     rows = [[PyInt 5, PyBool True, PyStr ''O'Neil'']]\<rparr>"

section \<open>Properties of the string functions\<close>

subsection \<open>Characters\<close>

lemma code_inj: "code a = code b \<longleftrightarrow> a = b"
  unfolding code_def by simp


lemma code_lt: "code c < 256"
  unfolding code_def by simp

lemma code_char_of: "n < 256 \<Longrightarrow> code (char_of n) = n"
  unfolding code_def by simp

lemma code_lower_char:
  "code (lower_char c) =
     (if (65 \<le> code c \<and> code c \<le> 90) \<or> (192 \<le> code c \<and> code c \<le> 214) \<or>
         (216 \<le> code c \<and> code c \<le> 222)
      then code c + 32 else code c)"
  by (auto simp: lower_char_def Let_def code_char_of)








subsection \<open>Stripping\<close>



lemma rstrip_Cons: "\<not> p a \<Longrightarrow> rev (dropWhile p (rev (a # t))) = a # rev (dropWhile p (rev t))"
  by (simp add: dropWhile_append)

lemma strip_where_Nil [simp]: "strip_where p [] = []"
  by (simp add: strip_where_def)

lemma strip_where_hd:
  assumes "strip_where p s \<noteq> []"
  shows "\<not> p (hd (strip_where p s))"
proof -
  from assms have "dropWhile p s \<noteq> []"
    by (cases "dropWhile p s") (auto simp: strip_where_def)
  then obtain a t where at: "dropWhile p s = a # t" by (cases "dropWhile p s") auto
  then have "\<not> p a" using hd_dropWhile[of p s] by auto
  then have "rev (dropWhile p (rev (a # t))) = a # rev (dropWhile p (rev t))"
    by (rule rstrip_Cons)
  then have "strip_where p s = a # rev (dropWhile p (rev t))"
    by (simp only: strip_where_def at)
  then show ?thesis using \<open>\<not> p a\<close> by simp
qed

lemma strip_where_last:
  assumes "strip_where p s \<noteq> []"
  shows "\<not> p (last (strip_where p s))"
proof -
  let ?u = "dropWhile p (rev (dropWhile p s))"
  from assms have u: "?u \<noteq> []" by (simp add: strip_where_def)
  then have "\<not> p (hd ?u)" by (simp add: hd_dropWhile)
  then show ?thesis using u by (simp add: strip_where_def last_rev)
qed

lemma strip_where_id:
  assumes "s \<noteq> []" "\<not> p (hd s)" "\<not> p (last s)"
  shows "strip_where p s = s"
proof -
  from assms have "dropWhile p s = s" by (cases s) auto
  moreover from assms have "dropWhile p (rev s) = rev s" by (cases "rev s") (auto simp: last_rev[symmetric])
  ultimately show ?thesis by (simp add: strip_where_def)
qed

subsection \<open>Runs of underscores\<close>






section \<open>Properties of the sanitizer\<close>





















section \<open>Properties of the cleaner\<close>

subsection \<open>Cleaning one cell\<close>

lemma lower_char_newline: "lower_char c = CHR 0x0A \<Longrightarrow> c = CHR 0x0A"
proof -
  assume "lower_char c = CHR 0x0A"
  then have "code (lower_char c) = 10" by (simp add: code_def)
  then have "code c = 10" unfolding code_lower_char by (auto split: if_splits)
  then show ?thesis using code_inj[of c "CHR 0x0A"] by (simp add: code_def)
qed

lemma isspace_newline: "isspace (CHR 0x0A)"
  by (simp add: isspace_def code_def)

lemma strip_not_newline_end: "lower (strip u) \<noteq> xs @ [CHR 0x0A]"
proof
  assume a: "lower (strip u) = xs @ [CHR 0x0A]"
  then have n: "strip u \<noteq> []" by (auto simp: lower_def)
  from a have "last (lower (strip u)) = CHR 0x0A" by simp
  then have "lower_char (last (strip u)) = CHR 0x0A" using n by (simp add: lower_def last_map)
  then have "last (strip u) = CHR 0x0A" by (rule lower_char_newline)
  then have "isspace (last (strip u))" by (simp add: isspace_newline)
  then show False using strip_where_last[of isspace u] n by (simp add: strip_def)
qed

lemma strip_all_space: "list_all isspace (strip u) \<longleftrightarrow> strip u = []"
proof
  assume a: "list_all isspace (strip u)"
  show "strip u = []"
  proof (rule ccontr)
    assume n: "strip u \<noteq> []"
    then have "\<not> isspace (hd (strip u))" using strip_where_hd[of isspace u] by (simp add: strip_def)
    moreover have "hd (strip u) \<in> set (strip u)" using n by simp
    ultimately show False using a by (simp add: list_all_iff)
  qed
qed simp

lemma strip_strip: "strip (strip u) = strip u"
proof (cases "strip u = []")
  case True
  then show ?thesis by (simp add: strip_def)
next
  case False
  then have "\<not> isspace (hd (strip u))" "\<not> isspace (last (strip u))"
    using strip_where_hd[of isspace u] strip_where_last[of isspace u] by (simp_all add: strip_def)
  with False have "strip_where isspace (strip u) = strip u" by (rule strip_where_id)
  then show ?thesis by (simp add: strip_def)
qed

lemma lower_tokens:
  "lower ''NA'' = ''na''" "lower ''null'' = ''null''" "lower ''not available'' = ''not available''"
  "lower ''nan'' = ''nan''" "lower ''None'' = ''none''" "lower ''ns'' = ''ns''"
  by code_simp+

lemma re_search_Token_strip: "re_search (Token t) (strip u) \<longleftrightarrow> lower (strip u) = lower t"
  using strip_not_newline_end[of u "lower t"] by simp

lemma re_search_Blank_strip: "re_search Blank (strip u) \<longleftrightarrow> strip u = []"
  using strip_all_space[of u] by simp

lemma search_null_patterns:
  "list_ex (\<lambda>p. re_search p (strip u)) null_patterns \<longleftrightarrow> null_like u"
  unfolding null_patterns_def null_like_def null_tokens_def list_ex_Cons_iff list_ex_Nil_iff
    re_search_Token_strip re_search_Blank_strip lower_tokens
  by auto

lemma replace_one_NA: "replace_one NA p = NA"
  by (simp add: replace_one_def)

lemma replace_one_PyStr: "replace_one (PyStr t) p = (if re_search p t then NA else PyStr t)"
  by (simp add: replace_one_def)

lemma foldl_replace_one_NA: "foldl replace_one NA ps = NA"
  by (induction ps) (simp_all add: replace_one_NA)

lemma foldl_replace_one:
  "foldl replace_one (PyStr t) ps = (if list_ex (\<lambda>p. re_search p t) ps then NA else PyStr t)"
  by (induction ps) (simp_all add: replace_one_PyStr foldl_replace_one_NA)

lemma clean_cell_eq:
  "clean_cell v = (if null_like (astype_str v) then NA else PyStr (strip (astype_str v)))"
  by (simp add: clean_cell_def foldl_replace_one search_null_patterns)

lemma pd_isna_clean_cell: "pd_isna (clean_cell v) \<longleftrightarrow> null_like (astype_str v)"
  by (simp add: clean_cell_eq)

subsection \<open>Cleaning the rows\<close>

lemma position_less: "c \<in> set cols \<Longrightarrow> position c cols < length cols"
  by (induction cols) auto

lemma nth_position: "c \<in> set cols \<Longrightarrow> cols ! position c cols = c"
  by (induction cols) auto

lemma clean_row_Nil [simp]: "clean_row cols [] r = r"
  by (simp add: clean_row_def)

lemma clean_row_Cons:
  "clean_row cols (c # S) r =
     clean_row cols S (if c \<in> set cols then r[position c cols := clean_cell (r ! position c cols)] else r)"
  by (simp add: clean_row_def)

lemma length_clean_row [simp]: "length (clean_row cols S r) = length r"
  by (induction S arbitrary: r) (simp_all add: clean_row_Cons)

lemma clean_row_other:
  "i < length cols \<Longrightarrow> cols ! i \<notin> set S \<Longrightarrow> clean_row cols S r ! i = r ! i"
proof (induction S arbitrary: r)
  case Nil
  then show ?case by simp
next
  case (Cons c S)
  then have "c \<in> set cols \<Longrightarrow> position c cols \<noteq> i" using nth_position[of c cols] by auto
  with Cons show ?case by (simp add: clean_row_Cons)
qed

lemma clean_row_unselected:
  "c \<in> set cols \<Longrightarrow> c \<notin> set S \<Longrightarrow> clean_row cols S r ! position c cols = r ! position c cols"
  using clean_row_other[of "position c cols" cols S r] by (simp add: position_less nth_position)

lemma clean_row_selected:
  "c \<in> set S \<Longrightarrow> c \<in> set cols \<Longrightarrow> distinct S \<Longrightarrow> length r = length cols \<Longrightarrow>
     clean_row cols S r ! position c cols = clean_cell (r ! position c cols)"
proof (induction S arbitrary: r)
  case Nil
  then show ?case by simp
next
  case (Cons d S)
  show ?case
  proof (cases "d = c")
    case True
    with Cons.prems have "c \<notin> set S" by simp
    with Cons.prems True show ?thesis
      by (simp add: clean_row_Cons clean_row_unselected position_less)
  next
    case False
    with Cons.prems have c: "c \<in> set S" "distinct S" by simp_all
    show ?thesis
    proof (cases "d \<in> set cols")
      case True
      then have "position d cols \<noteq> position c cols"
        using False nth_position[of d cols] nth_position[of c cols] Cons.prems(2) by metis
      then show ?thesis using Cons.IH[OF c(1) Cons.prems(2) c(2)] Cons.prems(4) True
        by (simp add: clean_row_Cons)
    next
      case False
      then show ?thesis using Cons.IH[OF c(1) Cons.prems(2) c(2)] Cons.prems(4)
        by (simp add: clean_row_Cons)
    qed
  qed
qed

lemma clean_step_columns [simp]: "columns (clean_step c df) = columns df"
  by (simp add: clean_step_def clean_column_def Let_def)

lemma fold_clean_step_columns [simp]: "columns (fold clean_step S df) = columns df"
  by (induction S arbitrary: df) simp_all

lemma clean_step_rows:
  "rows (clean_step c df) =
     map (\<lambda>r. if c \<in> set (columns df)
               then r[position c (columns df) := clean_cell (r ! position c (columns df))] else r)
       (rows df)"
  by (simp add: clean_step_def clean_column_def Let_def)

lemma fold_clean_step_rows:
  "rows (fold clean_step S df) = map (clean_row (columns df) S) (rows df)"
proof (induction S arbitrary: df)
  case Nil
  then show ?case by simp
next
  case (Cons c S)
  show ?case by (simp add: Cons clean_step_rows clean_row_Cons comp_def)
qed

lemma dropna_columns [simp]: "columns (dropna names df) = columns df"
  by (simp add: dropna_def)

lemma clean_data_columns: "columns (clean_data df S) = columns df"
  by (simp add: clean_data_def Let_def)

lemma kept_clean_row:
  assumes "distinct S" "length r = length (columns df)"
  shows "list_all (\<lambda>col. \<not> pd_isna (clean_row (columns df) S r ! position col (columns df)))
           (filter (\<lambda>col. col \<in> set (columns df)) S) \<longleftrightarrow> kept df S r"
  using assms by (auto simp: kept_def list_all_iff clean_row_selected pd_isna_clean_cell)

lemma clean_data_rows:
  assumes "well_formed df" "distinct S"
  shows "rows (clean_data df S) = map (clean_row (columns df) S) (filter (kept df S) (rows df))"
proof (cases "S = []")
  case True
  then show ?thesis by (simp add: clean_data_def kept_def map_idI)
next
  case False
  have len: "\<forall>r\<in>set (rows df). length r = length (columns df)"
    using assms(1) by (simp add: well_formed_def list_all_iff)
  have "rows (clean_data df S) =
      filter (\<lambda>r. list_all (\<lambda>col. \<not> pd_isna (r ! position col (columns df)))
                (filter (\<lambda>col. col \<in> set (columns df)) S))
        (map (clean_row (columns df) S) (rows df))"
    using False by (simp add: clean_data_def Let_def dropna_def fold_clean_step_rows)
  also have "\<dots> = map (clean_row (columns df) S) (filter (kept df S) (rows df))"
    unfolding filter_map comp_def
    using len kept_clean_row[OF assms(2)] by (intro arg_cong[where f="map _"] filter_cong) auto
  finally show ?thesis .
qed

subsection \<open>The example tables\<close>

lemma people_wf: "well_formed people"
  by code_simp

lemma text_30: "\<not> null_like ''30''" "strip ''30'' = ''30''"
  by code_simp+

lemma people_survivors: "filter (kept people [''Age'']) (rows people) = [[PyStr ''Bob'', PyStr ''30'']]"
  by code_simp

lemma people_kept:
  "map (clean_row (columns people) [''Age'']) (filter (kept people [''Age'']) (rows people)) =
     [[PyStr ''Bob'', PyStr ''30'']]"
  unfolding people_survivors by (simp add: people_def clean_row_def clean_cell_eq text_30)

lemma texts_missing:
  "\<not> null_like ''NaT''" "strip ''NaT'' = ''NaT''"
  "\<not> null_like ''2024-01-02''" "strip ''2024-01-02'' = ''2024-01-02''"
  "null_like ''None''" "null_like ''nan''" "\<not> null_like ''ok''" "strip ''ok'' = ''ok''"
  by code_simp+

lemma length_filter_eq_iff: "length (filter P xs) = length xs \<longleftrightarrow> (\<forall>x\<in>set xs. P x)"
proof
  assume a: "length (filter P xs) = length xs"
  show "\<forall>x\<in>set xs. P x"
  proof (rule ccontr)
    assume "\<not> (\<forall>x\<in>set xs. P x)"
    then obtain x where "x \<in> set xs" "\<not> P x" by blast
    then have "length (filter P xs) < length xs" by (rule length_filter_less)
    with a show False by simp
  qed
next
  assume "\<forall>x\<in>set xs. P x"
  then have "filter P xs = xs" by (simp add: filter_id_conv)
  then show "length (filter P xs) = length xs" by simp
qed

section \<open>Properties of the SQL generator\<close>

lemma dialect_names:
  "dialect_name d \<noteq> ''postgresql'' \<longleftrightarrow> d \<noteq> DialectB"
  "dialect_name d = ''mysql'' \<longleftrightarrow> d = DialectA"
  "dialect_name d = ''sqlite'' \<longleftrightarrow> d = DialectC"
  by (cases d; simp)+

lemma escape_Nil [simp]: "escape [] = []"
  by (simp add: escape_def)

lemma escape_Cons:
  "escape (c # s) = (if c = quote then quote # quote # escape s else c # escape s)"
  by (simp add: escape_def)

lemma unescape_Cons_other: "a \<noteq> quote \<Longrightarrow> unescape (a # s) = a # unescape s"
  by (cases s) simp_all

lemma unescape_escape: "unescape (escape s) = s"
  by (induction s) (simp_all add: escape_Cons unescape_Cons_other)

lemma sql_value_cases:
  "sql_value val =
     (if pd_isna val then ''NULL''
      else if isinstance_int_float val then py_str val
      else quote # escape (py_str val) @ [quote])"
  by (simp add: sql_value_def)

lemma generate_sql_inserts:
  "snd (generate_sql df table_name dialect) =
     join [newline] (map (insert_stmt df (sanitize_name table_name)) (rows df))"
  by (simp add: generate_sql_def insert_stmts_def Let_def)

lemma length_insert_stmts: "length (insert_stmts df table_name) = length (rows df)"
  by (simp add: insert_stmts_def)

lemma position_nth_distinct: "distinct cols \<Longrightarrow> i < length cols \<Longrightarrow> position (cols ! i) cols = i"
proof (induction cols arbitrary: i)
  case Nil
  then show ?case by simp
next
  case (Cons x cols)
  then show ?case by (cases i) auto
qed

lemma row_values_map:
  assumes "distinct (columns df)" "length row = length (columns df)"
  shows "row_values df row = map sql_value row"
  unfolding row_values_def
  by (rule nth_equalityI) (simp_all add: assms position_nth_distinct)

lemma escape_example: "escape ''O'Neil'' = ''O'' @ [quote, quote] @ ''Neil''"
  by (simp add: escape_Cons quote_def)

lemma text_int_30: "astype_str (PyInt 30) = ''30''"
  by code_simp

lemma names_t: "sanitize_name ''t'' = ''t''" "sanitize_name ''n'' = ''n''"
  "sanitize_name ''done'' = ''done''" "sanitize_name ''who'' = ''who''"
  by code_simp+

lemma text_5: "str_int 5 = ''5''"
  by code_simp

section \<open>Claims about the sanitizer\<close>




section \<open>Claims about the cleaner\<close>

text \<open>
  Claim C3. Let the table be well formed and the selection hold no name twice. A cell
  whose text (\<open>astype(str)\<close>, then stripped) is empty or is one of the six tokens,
  whatever the case of its letters, becomes the missing marker, and any other cell becomes
  its stripped text. The rows of the cleaned table are the rows that hold no such cell in
  a selected column that is there, in their order, each with its selected cells cleaned.
  So every cell of a selected column of the cleaned table is a text that is stripped, is
  not empty, is not made of whitespace, and is none of the tokens in any case.
\<close>

theorem clean_data_no_null_like:
  assumes "well_formed df" and "distinct S"
  shows "(\<forall>v. clean_cell v = (if null_like (astype_str v) then NA else PyStr (strip (astype_str v)))) \<and>
         rows (clean_data df S) = map (clean_row (columns df) S) (filter (kept df S) (rows df)) \<and>
         (\<forall>r\<in>set (rows (clean_data df S)). \<forall>c\<in>set S. c \<in> set (columns df) \<longrightarrow>
            (\<exists>s. r ! position c (columns df) = PyStr s \<and> strip s = s \<and> s \<noteq> [] \<and>
                 \<not> list_all isspace s \<and> lower s \<notin> set null_tokens))"
proof (intro conjI ballI impI allI)
  fix v show "clean_cell v = (if null_like (astype_str v) then NA else PyStr (strip (astype_str v)))"
    by (rule clean_cell_eq)
next
  show eq: "rows (clean_data df S) = map (clean_row (columns df) S) (filter (kept df S) (rows df))"
    using assms by (rule clean_data_rows)
  fix r c
  assume r: "r \<in> set (rows (clean_data df S))" and c: "c \<in> set S" "c \<in> set (columns df)"
  from r obtain r0 where r0: "r0 \<in> set (rows df)" "kept df S r0" "r = clean_row (columns df) S r0"
    unfolding eq by auto
  let ?t = "astype_str (r0 ! position c (columns df))"
  have len: "length r0 = length (columns df)"
    using assms(1) r0(1) by (simp add: well_formed_def list_all_iff)
  have nl: "\<not> null_like ?t" using r0(2) c by (simp add: kept_def list_all_iff)
  have "r ! position c (columns df) = clean_cell (r0 ! position c (columns df))"
    unfolding r0(3) using c assms(2) len by (rule clean_row_selected)
  then have cell: "r ! position c (columns df) = PyStr (strip ?t)" using nl by (simp add: clean_cell_eq)
  have ne: "strip ?t \<noteq> []" and tok: "lower (strip ?t) \<notin> set null_tokens"
    using nl by (simp_all add: null_like_def)
  have "\<not> list_all isspace (strip ?t)" using ne by (simp add: strip_all_space)
  with cell ne tok strip_strip[of ?t]
  show "\<exists>s. r ! position c (columns df) = PyStr s \<and> strip s = s \<and> s \<noteq> [] \<and>
            \<not> list_all isspace s \<and> lower s \<notin> set null_tokens"
    by blast
qed

text \<open>
  The scenario of the specification: of the rows Alice and Bob, cleaning \<open>Age\<close> leaves
  Bob, whose age is the text \<open>30\<close>.
\<close>

theorem clean_data_no_null_like_witness:
  "well_formed people \<and> distinct [''Age''] \<and>
   rows (clean_data people [''Age'']) = [[PyStr ''Bob'', PyStr ''30'']] \<and>
   (\<exists>s. [PyStr ''Bob'', PyStr ''30''] ! position ''Age'' (columns people) = PyStr s \<and> strip s = s \<and>
        s \<noteq> [] \<and> \<not> list_all isspace s \<and> lower s \<notin> set null_tokens)"
proof -
  have d: "distinct [''Age'']" by simp
  note t = clean_data_no_null_like[OF people_wf d]
  from t have rows: "rows (clean_data people [''Age'']) = [[PyStr ''Bob'', PyStr ''30'']]"
    using people_kept by simp
  have "''Age'' \<in> set (columns people)" by (simp add: people_def)
  with t rows have "\<exists>s. [PyStr ''Bob'', PyStr ''30''] ! position ''Age'' (columns people) = PyStr s \<and>
      strip s = s \<and> s \<noteq> [] \<and> \<not> list_all isspace s \<and> lower s \<notin> set null_tokens"
    by simp
  with people_wf d rows show ?thesis by blast
qed

text \<open>
  Claim C4. For a well-formed table and a selection that holds no name twice, cleaning
  never adds a row, and it keeps the number of rows exactly when no cell of a selected
  column that is there has a null-like text (its \<open>astype(str)\<close> text that, stripped, is
  empty or one of the tokens).
\<close>

theorem clean_data_row_count:
  assumes "well_formed df" and "distinct S"
  shows "length (rows (clean_data df S)) \<le> length (rows df) \<and>
         (length (rows (clean_data df S)) = length (rows df) \<longleftrightarrow>
            (\<forall>r\<in>set (rows df). \<forall>c\<in>set S. c \<in> set (columns df) \<longrightarrow>
               \<not> null_like (astype_str (r ! position c (columns df)))))"
proof -
  have "length (rows (clean_data df S)) = length (filter (kept df S) (rows df))"
    by (simp add: clean_data_rows[OF assms])
  moreover have "(\<forall>r\<in>set (rows df). kept df S r) \<longleftrightarrow>
      (\<forall>r\<in>set (rows df). \<forall>c\<in>set S. c \<in> set (columns df) \<longrightarrow>
         \<not> null_like (astype_str (r ! position c (columns df))))"
    by (simp add: kept_def list_all_iff)
  ultimately show ?thesis by (simp add: length_filter_eq_iff)
qed

text \<open>
  Cleaning \<open>Age\<close> drops the row of Alice, whose age is \<open>NA\<close>; cleaning \<open>Name\<close> drops
  no row.
\<close>

theorem clean_data_row_count_witness:
  "well_formed people \<and> distinct [''Age''] \<and>
   null_like (astype_str ([PyStr ''Alice'', PyStr ''NA''] ! position ''Age'' (columns people))) \<and>
   length (rows (clean_data people [''Age''])) < length (rows people) \<and>
   length (rows (clean_data people [''Name''])) = length (rows people)"
proof -
  have d: "distinct [''Age'']" and d': "distinct [''Name'']" by simp_all
  have n: "null_like (astype_str ([PyStr ''Alice'', PyStr ''NA''] ! position ''Age'' (columns people)))"
    by code_simp
  have "[PyStr ''Alice'', PyStr ''NA''] \<in> set (rows people)" "''Age'' \<in> set (columns people)"
    by (simp_all add: people_def)
  with n clean_data_row_count[OF people_wf d]
  have lt: "length (rows (clean_data people [''Age''])) < length (rows people)"
    by (meson list.set_intros(1) order_le_imp_less_or_eq)
  have "\<forall>r\<in>set (rows people). \<forall>c\<in>set [''Name'']. c \<in> set (columns people) \<longrightarrow>
      \<not> null_like (astype_str (r ! position c (columns people)))"
    by code_simp
  with clean_data_row_count[OF people_wf d']
  have "length (rows (clean_data people [''Name''])) = length (rows people)" by blast
  with people_wf d n lt show ?thesis by blast
qed

text \<open>
  Claim C5. Cleaning with an empty selection returns the table as it is: no cell is
  changed and no row is dropped.
\<close>

theorem clean_data_empty_selection: "clean_data df [] = df"
  by (simp add: clean_data_def)

theorem clean_data_empty_selection_witness: "clean_data people [] = people"
  by (rule clean_data_empty_selection)

text \<open>
  Claim C8. For a well-formed table and a selection that holds no name twice, the
  cleaned table has the columns of the table, in their order; its rows are as many as the
  rows that survive, and in each of them every cell of a column outside the selection is
  the cell of the surviving row.
\<close>

theorem clean_data_frame:
  assumes "well_formed df" and "distinct S"
  shows "columns (clean_data df S) = columns df \<and>
         length (rows (clean_data df S)) = length (filter (kept df S) (rows df)) \<and>
         (\<forall>j<length (filter (kept df S) (rows df)). \<forall>i<length (columns df).
            columns df ! i \<notin> set S \<longrightarrow>
              rows (clean_data df S) ! j ! i = filter (kept df S) (rows df) ! j ! i)"
  by (simp add: clean_data_columns clean_data_rows[OF assms] clean_row_other)

text \<open>
  In the scenario the name of Bob, in the column \<open>Name\<close> that is not selected, is unchanged.
\<close>

theorem clean_data_frame_witness:
  "well_formed people \<and> distinct [''Age''] \<and> columns (clean_data people [''Age'']) = [''Name'', ''Age''] \<and>
   filter (kept people [''Age'']) (rows people) = [[PyStr ''Bob'', PyStr ''30'']] \<and>
   ''Name'' \<notin> set [''Age''] \<and> rows (clean_data people [''Age'']) ! 0 ! 0 = PyStr ''Bob''"
proof -
  have d: "distinct [''Age'']" by simp
  note k = people_survivors
  have c: "columns people = [''Name'', ''Age'']" by (simp add: people_def)
  note t = clean_data_frame[OF people_wf d, unfolded k c]
  from t have "rows (clean_data people [''Age'']) ! 0 ! 0 = [[PyStr ''Bob'', PyStr ''30'']] ! 0 ! 0"
    by simp
  with t people_wf d k show ?thesis by simp
qed

text \<open>
  Claim C10 says that a row with a missing value in a selected column is dropped. The
  code drops it when the missing value is \<open>None\<close> or NaN, whose texts \<open>None\<close> and \<open>nan\<close>
  are tokens. The missing value of a datetime column is \<open>NaT\<close>; its text \<open>NaT\<close> is no
  token, so the cell becomes that text and the row stays.
\<close>

theorem clean_data_keeps_NaT:
  "clean_data dates [''when''] =
     \<lparr>columns = [''when''], dtypes = [''object''], rows = [[PyStr ''NaT''], [PyStr ''2024-01-02'']]\<rparr> \<and>
   clean_data remarks [''note''] =
     \<lparr>columns = [''note''], dtypes = [''object''], rows = [[PyStr ''ok'']]\<rparr>"
  by (simp add: clean_data_def clean_step_def clean_column_def dropna_def dates_def remarks_def
      Let_def clean_cell_eq texts_missing)

section \<open>Claims about the type mapper and the SQL generator\<close>

text \<open>
  Claim C6. \<open>map_dtype_to_sql\<close> is a function of the dtype name and the dialect, defined
  for all of them. For each of the three dialects its result is the entry of the
  specification's table for the semantic type of the dtype name, where a name that holds
  \<open>int\<close> is an integer, else one that holds \<open>float\<close> is a floating-point number, else one
  that holds \<open>bool\<close> is a boolean, else one that holds \<open>datetime\<close> is a timestamp, and
  any other name is text. The dtype names of pandas \<open>int64\<close>, \<open>float64\<close>, \<open>bool\<close>,
  \<open>datetime64[ns]\<close> and \<open>object\<close> are read as the five semantic types.
\<close>

theorem map_dtype_to_sql_table:
  "map_dtype_to_sql dtype_str (dialect_name d) = type_table (semantic_type_of dtype_str) d \<and>
   semantic_type_of ''int64'' = Integer \<and>
   semantic_type_of ''float64'' = FloatingPoint \<and>
   semantic_type_of ''bool'' = Boolean \<and>
   semantic_type_of ''datetime64[ns]'' = Timestamp \<and>
   semantic_type_of ''object'' = TextOther"
proof -
  have "map_dtype_to_sql dtype_str (dialect_name d) = type_table (semantic_type_of dtype_str) d"
    unfolding map_dtype_to_sql_def semantic_type_of_def dialect_names by (cases d) simp_all
  moreover have "semantic_type_of ''int64'' = Integer" by code_simp
  moreover have "semantic_type_of ''float64'' = FloatingPoint" by code_simp
  moreover have "semantic_type_of ''bool'' = Boolean" by code_simp
  moreover have "semantic_type_of ''datetime64[ns]'' = Timestamp" by code_simp
  moreover have "semantic_type_of ''object'' = TextOther" by code_simp
  ultimately show ?thesis by blast
qed

text \<open>
  The fifteen entries of the table, for the five dtype names and the three dialects.
\<close>

theorem map_dtype_to_sql_table_witness:
  "map_dtype_to_sql ''int64'' ''mysql'' = ''INT'' \<and>
   map_dtype_to_sql ''int64'' ''postgresql'' = ''INTEGER'' \<and>
   map_dtype_to_sql ''int64'' ''sqlite'' = ''INT'' \<and>
   map_dtype_to_sql ''float64'' ''mysql'' = ''DOUBLE'' \<and>
   map_dtype_to_sql ''float64'' ''postgresql'' = ''DOUBLE PRECISION'' \<and>
   map_dtype_to_sql ''float64'' ''sqlite'' = ''REAL'' \<and>
   map_dtype_to_sql ''bool'' ''mysql'' = ''BOOLEAN'' \<and>
   map_dtype_to_sql ''bool'' ''postgresql'' = ''BOOLEAN'' \<and>
   map_dtype_to_sql ''bool'' ''sqlite'' = ''BOOLEAN'' \<and>
   map_dtype_to_sql ''datetime64[ns]'' ''mysql'' = ''DATETIME'' \<and>
   map_dtype_to_sql ''datetime64[ns]'' ''postgresql'' = ''TIMESTAMP'' \<and>
   map_dtype_to_sql ''datetime64[ns]'' ''sqlite'' = ''DATETIME'' \<and>
   map_dtype_to_sql ''object'' ''mysql'' = ''VARCHAR(255)'' \<and>
   map_dtype_to_sql ''object'' ''postgresql'' = ''TEXT'' \<and>
   map_dtype_to_sql ''object'' ''sqlite'' = ''TEXT''"
proof -
  note t = map_dtype_to_sql_table
  show ?thesis
    using t[of "''int64''" DialectA] t[of "''int64''" DialectB] t[of "''int64''" DialectC]
      t[of "''float64''" DialectA] t[of "''float64''" DialectB] t[of "''float64''" DialectC]
      t[of "''bool''" DialectA] t[of "''bool''" DialectB] t[of "''bool''" DialectC]
      t[of "''datetime64[ns]''" DialectA] t[of "''datetime64[ns]''" DialectB]
      t[of "''datetime64[ns]''" DialectC]
      t[of "''object''" DialectA] t[of "''object''" DialectB] t[of "''object''" DialectC]
    by simp
qed

text \<open>
  Claim C7, as the code has it. A cell that is not missing and is no instance of
  \<open>int\<close> or \<open>float\<close> is emitted as its text \<open>str(val)\<close> between single quotes, each
  single quote of the text doubled; reading the doubled quotes back as single ones gives
  exactly that text. \<open>generate_sql\<close> strips nothing: the text is the stripped text only
  for a cell the cleaner has treated, which is the stripped \<open>astype(str)\<close> text of the
  cell of the loaded table.
\<close>

theorem quoted_value_round_trip:
  "(\<not> pd_isna val \<and> \<not> isinstance_int_float val \<longrightarrow>
      sql_value val = [quote] @ escape (py_str val) @ [quote]) \<and>
   unescape (escape (py_str val)) = py_str val \<and>
   (\<not> null_like (astype_str val) \<longrightarrow>
      sql_value (clean_cell val) = [quote] @ escape (strip (astype_str val)) @ [quote] \<and>
      unescape (escape (strip (astype_str val))) = strip (astype_str val))"
  by (simp add: sql_value_def unescape_escape clean_cell_eq)

text \<open>
  The name \<open>O'Neil\<close>, and the integer 30 of a cleaned column.
\<close>

theorem quoted_value_round_trip_witness:
  "\<not> pd_isna (PyStr ''O'Neil'') \<and> \<not> isinstance_int_float (PyStr ''O'Neil'') \<and>
   sql_value (PyStr ''O'Neil'') = [quote] @ ''O'' @ [quote, quote] @ ''Neil'' @ [quote] \<and>
   unescape (''O'' @ [quote, quote] @ ''Neil'') = ''O'Neil'' \<and>
   \<not> null_like (astype_str (PyInt 30)) \<and>
   sql_value (clean_cell (PyInt 30)) = [quote] @ ''30'' @ [quote] \<and>
   unescape ''30'' = ''30''"
proof -
  note t1 = quoted_value_round_trip[of "PyStr ''O'Neil''"]
  note t2 = quoted_value_round_trip[of "PyInt 30"]
  have a: "\<not> pd_isna (PyStr ''O'Neil'')" and a': "\<not> isinstance_int_float (PyStr ''O'Neil'')"
    by simp_all
  have b: "\<not> null_like (astype_str (PyInt 30))" unfolding text_int_30 by (rule text_30)
  have c: "escape ''30'' = ''30''" by (simp add: escape_Cons quote_def)
  from t1 a a' have "sql_value (PyStr ''O'Neil'') = [quote] @ escape ''O'Neil'' @ [quote]" by simp
  then have v1: "sql_value (PyStr ''O'Neil'') = [quote] @ ''O'' @ [quote, quote] @ ''Neil'' @ [quote]"
    by (simp only: escape_example append_assoc)
  from t1 have "unescape (escape ''O'Neil'') = ''O'Neil''" by simp
  then have u1: "unescape (''O'' @ [quote, quote] @ ''Neil'') = ''O'Neil''"
    by (simp only: escape_example)
  from t2 b have "sql_value (clean_cell (PyInt 30)) =
      [quote] @ escape (strip (astype_str (PyInt 30))) @ [quote]" by blast
  then have v2: "sql_value (clean_cell (PyInt 30)) = [quote] @ ''30'' @ [quote]"
    by (simp only: text_int_30 text_30 c)
  from t2 b have "unescape (escape (strip (astype_str (PyInt 30)))) = strip (astype_str (PyInt 30))"
    by blast
  then have u2: "unescape ''30'' = ''30''" by (simp only: text_int_30 text_30 c)
  from a a' v1 u1 b v2 u2 show ?thesis by blast
qed

text \<open>
  Claim C7 as the specification states it, with the stripped text on the right, fails
  for a cell of a column the cleaner did not treat: the text \<open>Bob\<close> with a space after
  it is emitted, and read back, with the space.
\<close>

theorem quoted_value_round_trip_counterexample:
  "\<not> pd_isna (PyStr ''Bob '') \<and> \<not> isinstance_int_float (PyStr ''Bob '') \<and>
   sql_value (PyStr ''Bob '') = [quote] @ ''Bob '' @ [quote] \<and>
   unescape ''Bob '' = ''Bob '' \<and>
   strip (py_str (PyStr ''Bob '')) = ''Bob'' \<and>
   unescape ''Bob '' \<noteq> strip (py_str (PyStr ''Bob ''))"
proof -
  have "escape ''Bob '' = ''Bob ''" by (simp add: escape_Cons quote_def)
  moreover have "unescape ''Bob '' = ''Bob ''" by (simp add: quote_def)
  moreover have "strip ''Bob '' = ''Bob''" by code_simp
  ultimately show ?thesis by (simp add: sql_value_def)
qed

text \<open>
  Claim C2 says that a numeric cell is emitted as its text without quotes. For a table
  whose columns are all integer columns, \<open>row[col]\<close> is a \<open>numpy.int64\<close>, which the
  test \<open>isinstance(val, (int, float))\<close> does not accept, and the code emits the integer
  5 between quotes.
\<close>

theorem generate_sql_numpy_int:
  "generate_sql counts ''t'' ''mysql'' =
     (''CREATE TABLE IF NOT EXISTS t ('' @ [newline] @ ''    n INT'' @ [newline] @ '');'' @ [newline],
      ''INSERT INTO t (n) VALUES ('5');'')"
  by (simp add: generate_sql_def create_stmt_def col_defs_def insert_stmts_def insert_stmt_def
      row_values_def sql_value_def counts_def names_t text_5 map_dtype_to_sql_def escape_Cons
      quote_def Let_def)

text \<open>
  Claim C9 says that a boolean cell takes the numeric branch and is emitted as \<open>True\<close>
  or \<open>False\<close> without quotes. For a table whose columns are all boolean columns,
  \<open>row[col]\<close> is a \<open>numpy.bool_\<close>, which the test does not accept either, and the code
  emits it between quotes; a Python \<open>bool\<close>, in a table that also has a text column, is
  emitted without quotes.
\<close>

theorem generate_sql_numpy_bool:
  "snd (generate_sql flags ''t'' ''mysql'') =
     ''INSERT INTO t (done) VALUES ('True');'' @ [newline] @
     ''INSERT INTO t (done) VALUES ('False');'' \<and>
   snd (generate_sql mixed ''t'' ''mysql'') =
     ''INSERT INTO t (n, done, who) VALUES (5, True, 'O'' @ [quote, quote] @ ''Neil');''"
  by (simp add: generate_sql_def insert_stmts_def insert_stmt_def row_values_def sql_value_def
      flags_def mixed_def names_t text_5 str_bool_def escape_Cons quote_def Let_def)

end
